theory Spec2Isabelle
  imports Main
begin

section \<open>Go values\<close>

text \<open>
  A Go \<^verbatim>\<open>string\<close> and a \<^verbatim>\<open>[]byte\<close> are sequences of bytes: both are \<^typ>\<open>string\<close> here
  (a \<^typ>\<open>char\<close> is one byte). A slice or pointer that may be \<^verbatim>\<open>nil\<close> is an option.
  A Go \<^verbatim>\<open>error\<close> is either a plain message or a message wrapping another error, which
  is what \<^verbatim>\<open>fmt.Errorf\<close> builds without and with the verb \<^verbatim>\<open>%w\<close>.
\<close>

type_synonym bytes = string

datatype go_error = ErrorString string | WrapError string go_error

fun error_text :: "go_error \<Rightarrow> string" where
  "error_text (ErrorString s) = s"
| "error_text (WrapError s _) = s"

text \<open>\<^verbatim>\<open>fmt.Errorf(prefix + "%w", err)\<close> and \<^verbatim>\<open>fmt.Errorf(prefix + "%s", s)\<close>.\<close>

definition Errorf_w :: "string \<Rightarrow> go_error \<Rightarrow> go_error" where
  "Errorf_w prefix err = WrapError (prefix @ error_text err) err"

definition Errorf_s :: "string \<Rightarrow> string \<Rightarrow> go_error" where
  "Errorf_s prefix s = ErrorString (prefix @ s)"

section \<open>The parts of net/http the helpers call\<close>

text \<open>
  \<^verbatim>\<open>http.Header\<close> is a map from canonical header names to the list of their values.
  \<^verbatim>\<open>Add\<close>, \<^verbatim>\<open>Set\<close>, \<^verbatim>\<open>Get\<close> and \<^verbatim>\<open>Values\<close> canonicalise the name with
  \<^verbatim>\<open>textproto.CanonicalMIMEHeaderKey\<close>: a name made of header token bytes only gets an
  upper-case first letter and an upper-case letter after each dash, every other letter in
  lower case; any other name is left as it is.
\<close>

type_synonym Header = "string \<rightharpoonup> string list"

definition isLower :: "char \<Rightarrow> bool" where
  "isLower c = (97 \<le> (of_char c :: nat) \<and> (of_char c :: nat) \<le> 122)"

definition isUpper :: "char \<Rightarrow> bool" where
  "isUpper c = (65 \<le> (of_char c :: nat) \<and> (of_char c :: nat) \<le> 90)"

definition isDigit :: "char \<Rightarrow> bool" where
  "isDigit c = (48 \<le> (of_char c :: nat) \<and> (of_char c :: nat) \<le> 57)"

definition validHeaderFieldByte :: "char \<Rightarrow> bool" where
  "validHeaderFieldByte c =
     (isLower c \<or> isUpper c \<or> isDigit c \<or> c \<in> set (CHR 0x27 # ''!#$%&*+-.^_`|~''))"

fun canonicalBytes :: "bool \<Rightarrow> string \<Rightarrow> string" where
  "canonicalBytes upper [] = []"
| "canonicalBytes upper (c # cs) =
     (let c' = (if upper \<and> isLower c then char_of (of_char c - 32 :: nat)
                else if \<not> upper \<and> isUpper c then char_of (of_char c + 32 :: nat)
                else c)
      in c' # canonicalBytes (c' = CHR ''-'') cs)"

definition CanonicalMIMEHeaderKey :: "string \<Rightarrow> string" where
  "CanonicalMIMEHeaderKey s =
     (if list_all validHeaderFieldByte s then canonicalBytes True s else s)"

definition Header_Add :: "Header \<Rightarrow> string \<Rightarrow> string \<Rightarrow> Header" where
  "Header_Add h key v =
     (let k = CanonicalMIMEHeaderKey key
      in h(k \<mapsto> (case h k of None \<Rightarrow> [] | Some vs \<Rightarrow> vs) @ [v]))"

definition Header_Set :: "Header \<Rightarrow> string \<Rightarrow> string \<Rightarrow> Header" where
  "Header_Set h key v = h(CanonicalMIMEHeaderKey key \<mapsto> [v])"

definition Header_Values :: "Header \<Rightarrow> string \<Rightarrow> string list" where
  "Header_Values h key = (case h (CanonicalMIMEHeaderKey key) of None \<Rightarrow> [] | Some vs \<Rightarrow> vs)"

definition Header_Get :: "Header \<Rightarrow> string \<Rightarrow> string" where
  "Header_Get h key = (case Header_Values h key of [] \<Rightarrow> [] | v # _ \<Rightarrow> v)"

text \<open>
  Of \<^verbatim>\<open>http.Cookie\<close> only the fields that \<^verbatim>\<open>Request.AddCookie\<close> reads are kept. Of
  \<^verbatim>\<open>http.Request\<close> the fields the helpers set or that travel to the handler.
\<close>

record Cookie =
  Name :: string
  Value :: string
  Quoted :: bool

record 'ctx Request =
  req_Method :: string
  req_RequestURI :: string
  req_Header :: Header
  req_Host :: string
  req_Body :: bytes
  req_Context :: "'ctx option"

text \<open>
  What the standard library computes and this package only calls is a parameter of the
  model: \<^verbatim>\<open>httptest.NewRequest\<close>, which parses a request line and panics (\<open>Inl\<close>) when
  it is malformed, and the two sanitisers \<^verbatim>\<open>AddCookie\<close> applies to a cookie's name and
  value. Every theorem below holds for each choice of them.
\<close>

record 'ctx net_http =
  httptest_NewRequest :: "string \<Rightarrow> string \<Rightarrow> bytes option \<Rightarrow> string + 'ctx Request"
  sanitizeCookieName :: "string \<Rightarrow> string"
  sanitizeCookieValue :: "string \<Rightarrow> bool \<Rightarrow> string"

text \<open>
  \<^verbatim>\<open>Request.AddCookie\<close>: the cookie is rendered as \<^verbatim>\<open>name=value\<close> and joined with
  \<^verbatim>\<open>"; "\<close> to the first value of the \<^verbatim>\<open>Cookie\<close> header when that is not empty; the
  header is then set to that single value.
\<close>

definition cookiePair :: "'ctx net_http \<Rightarrow> Cookie \<Rightarrow> string" where
  "cookiePair lib c =
     sanitizeCookieName lib (Name c) @ ''='' @ sanitizeCookieValue lib (Value c) (Quoted c)"

definition AddCookie :: "'ctx net_http \<Rightarrow> Cookie \<Rightarrow> 'ctx Request \<Rightarrow> 'ctx Request" where
  "AddCookie lib c req =
     (let s = cookiePair lib c;
          cur = Header_Get (req_Header req) ''Cookie''
      in if cur \<noteq> []
         then req\<lparr>req_Header := Header_Set (req_Header req) ''Cookie'' (cur @ ''; '' @ s)\<rparr>
         else req\<lparr>req_Header := Header_Set (req_Header req) ''Cookie'' s\<rparr>)"

text \<open>\<^verbatim>\<open>httptest.ResponseRecorder\<close> and \<^verbatim>\<open>httptest.NewRecorder()\<close>.\<close>

record ResponseRecorder =
  rec_Code :: int
  rec_HeaderMap :: Header
  rec_Body :: bytes

definition NewRecorder :: ResponseRecorder where
  "NewRecorder = \<lparr>rec_Code = 200, rec_HeaderMap = Map.empty, rec_Body = []\<rparr>"

section \<open>RequestBuilder\<close>

text \<open>
  The builder is a pointer in Go and every method returns its receiver after updating it:
  here each method takes the builder's state and returns the new one. \<open>Headers\<close> is the
  map made by \<^verbatim>\<open>NewRequest\<close>; a builder literal with a \<^verbatim>\<open>nil\<close> map, on which a header
  setter panics, is not a value of this type.
\<close>

record 'ctx RequestBuilder =
  Method :: string
  Path :: string
  Headers :: "string \<rightharpoonup> string"
  Body :: "bytes option"
  Error :: "go_error option"
  Cookies :: "Cookie option list"
  Context :: "'ctx option"

definition NewRequest :: "'ctx RequestBuilder" where
  "NewRequest = \<lparr>Method = [], Path = [], Headers = Map.empty, Body = None, Error = None,
                  Cookies = [], Context = None\<rparr>"

definition WithMethod :: "string \<Rightarrow> string \<Rightarrow> 'ctx RequestBuilder \<Rightarrow> 'ctx RequestBuilder" where
  "WithMethod method path r = r\<lparr>Method := method, Path := path\<rparr>"

definition Get :: "string \<Rightarrow> 'ctx RequestBuilder \<Rightarrow> 'ctx RequestBuilder" where
  "Get path r = WithMethod ''GET'' path r"

definition Post :: "string \<Rightarrow> 'ctx RequestBuilder \<Rightarrow> 'ctx RequestBuilder" where
  "Post path r = WithMethod ''POST'' path r"

definition Put :: "string \<Rightarrow> 'ctx RequestBuilder \<Rightarrow> 'ctx RequestBuilder" where
  "Put path r = WithMethod ''PUT'' path r"

definition Patch :: "string \<Rightarrow> 'ctx RequestBuilder \<Rightarrow> 'ctx RequestBuilder" where
  "Patch path r = WithMethod ''PATCH'' path r"

definition Delete :: "string \<Rightarrow> 'ctx RequestBuilder \<Rightarrow> 'ctx RequestBuilder" where
  "Delete path r = WithMethod ''DELETE'' path r"

definition WithHeader :: "string \<Rightarrow> string \<Rightarrow> 'ctx RequestBuilder \<Rightarrow> 'ctx RequestBuilder" where
  "WithHeader header v r = r\<lparr>Headers := (Headers r)(header \<mapsto> v)\<rparr>"

definition WithJWSAuth :: "string \<Rightarrow> 'ctx RequestBuilder \<Rightarrow> 'ctx RequestBuilder" where
  "WithJWSAuth jws r = r\<lparr>Headers := (Headers r)(''Authorization'' \<mapsto> ''Bearer '' @ jws)\<rparr>"

definition WithHost :: "string \<Rightarrow> 'ctx RequestBuilder \<Rightarrow> 'ctx RequestBuilder" where
  "WithHost v r = WithHeader ''Host'' v r"

definition WithContentType :: "string \<Rightarrow> 'ctx RequestBuilder \<Rightarrow> 'ctx RequestBuilder" where
  "WithContentType v r = WithHeader ''Content-Type'' v r"

definition WithJsonContentType :: "'ctx RequestBuilder \<Rightarrow> 'ctx RequestBuilder" where
  "WithJsonContentType r = WithContentType ''application/json'' r"

definition WithAccept :: "string \<Rightarrow> 'ctx RequestBuilder \<Rightarrow> 'ctx RequestBuilder" where
  "WithAccept v r = WithHeader ''Accept'' v r"

definition WithAcceptJson :: "'ctx RequestBuilder \<Rightarrow> 'ctx RequestBuilder" where
  "WithAcceptJson r = WithAccept ''application/json'' r"

definition WithBody :: "bytes option \<Rightarrow> 'ctx RequestBuilder \<Rightarrow> 'ctx RequestBuilder" where
  "WithBody body r = r\<lparr>Body := body\<rparr>"

text \<open>
  \<^verbatim>\<open>json.Marshal\<close> is a parameter: it returns a byte slice and an error, either of which may
  be \<^verbatim>\<open>nil\<close>. The body is assigned whatever comes back; the error, when there is one, is
  wrapped and stored, whether or not an error was stored before.
\<close>

type_synonym 'obj marshaler = "'obj \<Rightarrow> bytes option \<times> go_error option"

definition WithJsonBody ::
  "'obj marshaler \<Rightarrow> 'obj \<Rightarrow> 'ctx RequestBuilder \<Rightarrow> 'ctx RequestBuilder" where
  "WithJsonBody marshal obj r =
     (let (b, err) = marshal obj;
          r1 = r\<lparr>Body := b\<rparr>;
          r2 = (case err of
                  Some e \<Rightarrow> r1\<lparr>Error := Some (Errorf_w ''failed to marshal json object: '' e)\<rparr>
                | None \<Rightarrow> r1)
      in WithJsonContentType r2)"

definition WithCookie :: "Cookie option \<Rightarrow> 'ctx RequestBuilder \<Rightarrow> 'ctx RequestBuilder" where
  "WithCookie c r = r\<lparr>Cookies := Cookies r @ [c]\<rparr>"

definition WithCookieNameValue ::
  "string \<Rightarrow> string \<Rightarrow> 'ctx RequestBuilder \<Rightarrow> 'ctx RequestBuilder" where
  "WithCookieNameValue name v r = WithCookie (Some \<lparr>Name = name, Value = v, Quoted = False\<rparr>) r"

definition WithContext :: "'ctx option \<Rightarrow> 'ctx RequestBuilder \<Rightarrow> 'ctx RequestBuilder" where
  "WithContext ctx r = r\<lparr>Context := ctx\<rparr>"

text \<open>
  A sequence of configuration calls, as data, so that statements can range over every
  chain \<^verbatim>\<open>NewRequest().A(...).B(...)\<close>.
\<close>

datatype ('obj, 'ctx) call =
    Call_WithMethod string string
  | Call_Get string
  | Call_Post string
  | Call_Put string
  | Call_Patch string
  | Call_Delete string
  | Call_WithHeader string string
  | Call_WithJWSAuth string
  | Call_WithHost string
  | Call_WithContentType string
  | Call_WithJsonContentType
  | Call_WithAccept string
  | Call_WithAcceptJson
  | Call_WithBody "bytes option"
  | Call_WithJsonBody 'obj
  | Call_WithCookie "Cookie option"
  | Call_WithCookieNameValue string string
  | Call_WithContext "'ctx option"

fun invoke ::
  "'obj marshaler \<Rightarrow> ('obj, 'ctx) call \<Rightarrow> 'ctx RequestBuilder \<Rightarrow> 'ctx RequestBuilder" where
  "invoke marshal (Call_WithMethod m p) r = WithMethod m p r"
| "invoke marshal (Call_Get p) r = Get p r"
| "invoke marshal (Call_Post p) r = Post p r"
| "invoke marshal (Call_Put p) r = Put p r"
| "invoke marshal (Call_Patch p) r = Patch p r"
| "invoke marshal (Call_Delete p) r = Delete p r"
| "invoke marshal (Call_WithHeader h v) r = WithHeader h v r"
| "invoke marshal (Call_WithJWSAuth jws) r = WithJWSAuth jws r"
| "invoke marshal (Call_WithHost v) r = WithHost v r"
| "invoke marshal (Call_WithContentType v) r = WithContentType v r"
| "invoke marshal Call_WithJsonContentType r = WithJsonContentType r"
| "invoke marshal (Call_WithAccept v) r = WithAccept v r"
| "invoke marshal Call_WithAcceptJson r = WithAcceptJson r"
| "invoke marshal (Call_WithBody b) r = WithBody b r"
| "invoke marshal (Call_WithJsonBody obj) r = WithJsonBody marshal obj r"
| "invoke marshal (Call_WithCookie c) r = WithCookie c r"
| "invoke marshal (Call_WithCookieNameValue n v) r = WithCookieNameValue n v r"
| "invoke marshal (Call_WithContext ctx) r = WithContext ctx r"

definition configure ::
  "'obj marshaler \<Rightarrow> ('obj, 'ctx) call list \<Rightarrow> 'ctx RequestBuilder \<Rightarrow> 'ctx RequestBuilder" where
  "configure marshal calls r = fold (invoke marshal) calls r"

text \<open>The error a call hands to the deferred slot: only a failing \<open>WithJsonBody\<close> has one.\<close>

fun marshalFailure :: "'obj marshaler \<Rightarrow> ('obj, 'ctx) call \<Rightarrow> go_error option" where
  "marshalFailure marshal (Call_WithJsonBody obj) = snd (marshal obj)"
| "marshalFailure marshal _ = None"

section \<open>GoWithHTTPHandler\<close>

text \<open>
  The reporter is an interface with the one method \<^verbatim>\<open>Errorf\<close>: its state is the list of
  the calls it has received. The handler is an interface with the one method
  \<^verbatim>\<open>ServeHTTP\<close>: it gets the fresh recorder and the request, and either panics (\<open>Inl\<close>)
  or leaves the recorder as it wrote it.
\<close>

type_synonym TestReporter = "(string \<times> go_error list) list"

definition Errorf :: "TestReporter \<Rightarrow> string \<Rightarrow> go_error list \<Rightarrow> TestReporter" where
  "Errorf t format args = t @ [(format, args)]"

type_synonym 'ctx Handler = "ResponseRecorder \<Rightarrow> 'ctx Request \<Rightarrow> string + ResponseRecorder"

record CompletedRequest =
  Recorder :: ResponseRecorder
  Strict :: bool

text \<open>
  Go leaves the order of \<^verbatim>\<open>range\<close> over a map open: the order taken is the argument
  \<open>order\<close>, and \<open>rangeOrder\<close> says that it visits every key of the map once.
\<close>

definition rangeOrder :: "(string \<rightharpoonup> string) \<Rightarrow> string list \<Rightarrow> bool" where
  "rangeOrder m order = (distinct order \<and> set order = dom m)"

definition addHeaders ::
  "string list \<Rightarrow> (string \<rightharpoonup> string) \<Rightarrow> 'ctx Request \<Rightarrow> 'ctx Request" where
  "addHeaders order hs req =
     fold (\<lambda>h q. case hs h of
                    None \<Rightarrow> q
                  | Some v \<Rightarrow> q\<lparr>req_Header := Header_Add (req_Header q) h v\<rparr>) order req"

definition setHost :: "(string \<rightharpoonup> string) \<Rightarrow> 'ctx Request \<Rightarrow> 'ctx Request" where
  "setHost hs req = (case hs ''Host'' of Some host \<Rightarrow> req\<lparr>req_Host := host\<rparr> | None \<Rightarrow> req)"

text \<open>\<^verbatim>\<open>AddCookie\<close> dereferences the cookie: a \<^verbatim>\<open>nil\<close> one panics.\<close>

fun addCookies ::
  "'ctx net_http \<Rightarrow> Cookie option list \<Rightarrow> 'ctx Request \<Rightarrow> string + 'ctx Request" where
  "addCookies lib [] req = Inr req"
| "addCookies lib (None # cs) req = Inl ''invalid memory address or nil pointer dereference''"
| "addCookies lib (Some c # cs) req = addCookies lib cs (AddCookie lib c req)"

definition withContext :: "'ctx option \<Rightarrow> 'ctx Request \<Rightarrow> 'ctx Request" where
  "withContext ctx req = (case ctx of Some c \<Rightarrow> req\<lparr>req_Context := Some c\<rparr> | None \<Rightarrow> req)"

text \<open>Lines 157 to 174: the request that is handed to the handler.\<close>

definition buildRequest ::
  "'ctx net_http \<Rightarrow> string list \<Rightarrow> 'ctx RequestBuilder \<Rightarrow> string + 'ctx Request" where
  "buildRequest lib order r =
     (let bodyReader = Body r
      in case httptest_NewRequest lib (Method r) (Path r) bodyReader of
           Inl p \<Rightarrow> Inl p
         | Inr req \<Rightarrow>
             (case addCookies lib (Cookies r) (setHost (Headers r) (addHeaders order (Headers r) req)) of
                Inl p \<Rightarrow> Inl p
              | Inr req' \<Rightarrow> Inr (withContext (Context r) req')))"

text \<open>
  What a call of \<open>GoWithHTTPHandler\<close> leaves behind: the builder, the reporter, the
  requests the handler was called with, the returned pointer (\<open>None\<close> is \<^verbatim>\<open>nil\<close>) and the
  panic, if the call ended in one.
\<close>

record 'ctx dispatched =
  builder :: "'ctx RequestBuilder"
  reporter :: TestReporter
  served :: "'ctx Request list"
  returned :: "CompletedRequest option"
  panicked :: "string option"

definition GoWithHTTPHandler ::
  "'ctx net_http \<Rightarrow> string list \<Rightarrow> 'ctx RequestBuilder \<Rightarrow> TestReporter \<Rightarrow> 'ctx Handler
     \<Rightarrow> 'ctx dispatched" where
  "GoWithHTTPHandler lib order r t handler =
     (case Error r of
        Some e \<Rightarrow>
          \<lparr>builder = r, reporter = Errorf t ''error constructing request: %s'' [e],
           served = [], returned = None, panicked = None\<rparr>
      | None \<Rightarrow>
          (case buildRequest lib order r of
             Inl p \<Rightarrow>
               \<lparr>builder = r, reporter = t, served = [], returned = None, panicked = Some p\<rparr>
           | Inr req \<Rightarrow>
               (case handler NewRecorder req of
                  Inl p \<Rightarrow>
                    \<lparr>builder = r, reporter = t, served = [req], returned = None,
                     panicked = Some p\<rparr>
                | Inr rec \<Rightarrow>
                    \<lparr>builder = r, reporter = t, served = [req],
                     returned = Some \<lparr>Recorder = rec, Strict = False\<rparr>, panicked = None\<rparr>)))"

section \<open>CompletedRequest\<close>

definition DisallowUnknownFields :: "CompletedRequest \<Rightarrow> CompletedRequest" where
  "DisallowUnknownFields c = c\<lparr>Strict := True\<rparr>"

text \<open>
  \<^verbatim>\<open>strings.Split(s, ";")\<close> for the one-byte separator, and \<^verbatim>\<open>strings.TrimSpace\<close>: white
  space is the six ASCII space bytes and the UTF-8 encodings of the other code points
  with Unicode's White Space property; it is cut from the front rune by rune, then from
  the back.
\<close>

fun Split :: "string \<Rightarrow> char \<Rightarrow> string list" where
  "Split [] sep = [[]]"
| "Split (c # cs) sep =
     (if c = sep then [] # Split cs sep
      else (case Split cs sep of [] \<Rightarrow> [[c]] | p # ps \<Rightarrow> (c # p) # ps))"

definition asciiSpace :: "char \<Rightarrow> bool" where
  "asciiSpace c = (c \<in> set [CHR 0x09, CHR 0x0A, CHR 0x0B, CHR 0x0C, CHR 0x0D, CHR 0x20])"

definition unicodeSpaces :: "string list" where
  "unicodeSpaces =
     [[CHR 0xC2, CHR 0x85], [CHR 0xC2, CHR 0xA0], [CHR 0xE1, CHR 0x9A, CHR 0x80],
      [CHR 0xE2, CHR 0x80, CHR 0x80], [CHR 0xE2, CHR 0x80, CHR 0x81],
      [CHR 0xE2, CHR 0x80, CHR 0x82], [CHR 0xE2, CHR 0x80, CHR 0x83],
      [CHR 0xE2, CHR 0x80, CHR 0x84], [CHR 0xE2, CHR 0x80, CHR 0x85],
      [CHR 0xE2, CHR 0x80, CHR 0x86], [CHR 0xE2, CHR 0x80, CHR 0x87],
      [CHR 0xE2, CHR 0x80, CHR 0x88], [CHR 0xE2, CHR 0x80, CHR 0x89],
      [CHR 0xE2, CHR 0x80, CHR 0x8A], [CHR 0xE2, CHR 0x80, CHR 0xA8],
      [CHR 0xE2, CHR 0x80, CHR 0xA9], [CHR 0xE2, CHR 0x80, CHR 0xAF],
      [CHR 0xE2, CHR 0x81, CHR 0x9F], [CHR 0xE3, CHR 0x80, CHR 0x80]]"

definition leadingSpace :: "string \<Rightarrow> nat" where
  "leadingSpace s =
     (case s of
        [] \<Rightarrow> 0
      | c # _ \<Rightarrow>
          if asciiSpace c then 1
          else (case find (\<lambda>u. take (length u) s = u) unicodeSpaces of
                  Some u \<Rightarrow> length u
                | None \<Rightarrow> 0))"

definition trailingSpace :: "string \<Rightarrow> nat" where
  "trailingSpace s =
     (case rev s of
        [] \<Rightarrow> 0
      | c # _ \<Rightarrow>
          if asciiSpace c then 1
          else (case find (\<lambda>u. drop (length s - length u) s = u) unicodeSpaces of
                  Some u \<Rightarrow> length u
                | None \<Rightarrow> 0))"

function TrimLeftSpace :: "string \<Rightarrow> string" where
  "TrimLeftSpace s =
     (if s = [] \<or> leadingSpace s = 0 then s else TrimLeftSpace (drop (leadingSpace s) s))"
  by pat_completeness auto
termination
  by (relation "measure length") auto

function TrimRightSpace :: "string \<Rightarrow> string" where
  "TrimRightSpace s =
     (if s = [] \<or> trailingSpace s = 0 then s
      else TrimRightSpace (take (length s - trailingSpace s) s))"
  by pat_completeness auto
termination
  by (relation "measure length") auto

definition TrimSpace :: "string \<Rightarrow> string" where
  "TrimSpace s = TrimRightSpace (TrimLeftSpace s)"

text \<open>
  A decoder gets the header value, the recorded body, the target and the strictness flag;
  it returns its error (\<open>None\<close> is \<^verbatim>\<open>nil\<close>), the target as it left it and what it left
  unread of the body. The registry \<^verbatim>\<open>getHandler\<close> reads is a parameter (\<open>None\<close> is a
  \<^verbatim>\<open>nil\<close> handler). Indexing the parts panics on an empty slice.
\<close>

type_synonym 'obj ResponseHandler =
  "string \<Rightarrow> bytes \<Rightarrow> 'obj \<Rightarrow> bool \<Rightarrow> go_error option \<times> 'obj \<times> bytes"

definition UnmarshalBodyToObject ::
  "(string \<Rightarrow> 'obj ResponseHandler option) \<Rightarrow> CompletedRequest \<Rightarrow> 'obj
     \<Rightarrow> string + go_error option \<times> 'obj \<times> CompletedRequest" where
  "UnmarshalBodyToObject getHandler c obj =
     (let ctype = Header_Get (rec_HeaderMap (Recorder c)) ''Content-Type'';
          contentParts = Split ctype CHR '';''
      in case contentParts of
           [] \<Rightarrow> Inl ''index out of range [0] with length 0''
         | part # _ \<Rightarrow>
             (let content = TrimSpace part
              in case getHandler content of
                   None \<Rightarrow> Inr (Some (Errorf_s ''unhandled content: '' content), obj, c)
                 | Some handler \<Rightarrow>
                     (case handler ctype (rec_Body (Recorder c)) obj (Strict c) of
                        (err, obj', unread) \<Rightarrow>
                          Inr (err, obj', c\<lparr>Recorder := (Recorder c)\<lparr>rec_Body := unread\<rparr>\<rparr>))))"

definition UnmarshalJsonToObject ::
  "(bytes \<Rightarrow> 'obj \<Rightarrow> go_error option \<times> 'obj) \<Rightarrow> CompletedRequest \<Rightarrow> 'obj
     \<Rightarrow> go_error option \<times> 'obj" where
  "UnmarshalJsonToObject unmarshal c obj = unmarshal (rec_Body (Recorder c)) obj"

definition Code :: "CompletedRequest \<Rightarrow> int" where
  "Code c = rec_Code (Recorder c)"

section \<open>The decoder registry and the JSON decoder\<close>

text \<open>
  Modelled from the spec: \<^verbatim>\<open>getHandler\<close>, the registry it reads and the JSON decoder
  registered there are not in \<^verbatim>\<open>request_helpers.go\<close>. The spec has the registry as a
  mapping from media type to decoder, seeded with \<^verbatim>\<open>application/json\<close>, and the JSON
  decoder in strict mode rejecting object fields not present in the target's shape rather
  than ignoring them. The target is a structure, a map from its field names to their
  values; reading the members of the object out of the JSON text is the work of
  \<^verbatim>\<open>encoding/json\<close> and a parameter (\<open>None\<close> for text that is no JSON object).
\<close>

fun decodeMembers ::
  "bool \<Rightarrow> (string \<times> 'v) list \<Rightarrow> (string \<rightharpoonup> 'v) \<Rightarrow> string + (string \<rightharpoonup> 'v)" where
  "decodeMembers strict [] target = Inr target"
| "decodeMembers strict ((k, v) # members) target =
     (case target k of
        Some _ \<Rightarrow> decodeMembers strict members (target(k \<mapsto> v))
      | None \<Rightarrow> if strict then Inl k else decodeMembers strict members target)"

definition jsonHandler ::
  "(bytes \<Rightarrow> (string \<times> 'v) list option) \<Rightarrow> (string \<rightharpoonup> 'v) ResponseHandler" where
  "jsonHandler parse ctype raw target strict =
     (case parse raw of
        None \<Rightarrow> (Some (ErrorString ''invalid character''), target, [])
      | Some members \<Rightarrow>
          (case decodeMembers strict members target of
             Inl k \<Rightarrow> (Some (Errorf_s ''json: unknown field '' k), target, [])
           | Inr target' \<Rightarrow> (None, target', [])))"

definition knownHandlers ::
  "(bytes \<Rightarrow> (string \<times> 'v) list option) \<Rightarrow> string \<rightharpoonup> (string \<rightharpoonup> 'v) ResponseHandler" where
  "knownHandlers parse = [''application/json'' \<mapsto> jsonHandler parse]"

definition getHandler ::
  "(bytes \<Rightarrow> (string \<times> 'v) list option) \<Rightarrow> string \<Rightarrow> (string \<rightharpoonup> 'v) ResponseHandler option" where
  "getHandler parse mime = knownHandlers parse mime"

section \<open>Notions used in the statements\<close>

text \<open>
  The values stored under a canonical name; the values the header loop adds under a
  canonical name, in the order it visits the configured names; \<^verbatim>\<open>strings.Join\<close>; and the
  cookies a configuration call appends.
\<close>

definition rawValues :: "Header \<Rightarrow> string \<Rightarrow> string list" where
  "rawValues h k = (case h k of None \<Rightarrow> [] | Some vs \<Rightarrow> vs)"

definition valuesFor :: "string list \<Rightarrow> (string \<rightharpoonup> string) \<Rightarrow> string \<Rightarrow> string list" where
  "valuesFor order hs k =
     concat (map (\<lambda>h. case hs h of
                         Some v \<Rightarrow> if CanonicalMIMEHeaderKey h = k then [v] else []
                       | None \<Rightarrow> []) order)"

fun Join :: "string list \<Rightarrow> string \<Rightarrow> string" where
  "Join [] sep = []"
| "Join [x] sep = x"
| "Join (x # y # ys) sep = x @ sep @ Join (y # ys) sep"

fun appendedCookies :: "('obj, 'ctx) call \<Rightarrow> Cookie option list" where
  "appendedCookies (Call_WithCookie c) = [c]"
| "appendedCookies (Call_WithCookieNameValue n v) = [Some \<lparr>Name = n, Value = v, Quoted = False\<rparr>]"
| "appendedCookies _ = []"

section \<open>Concrete inputs\<close>

text \<open>
  To run the model on concrete inputs the parameters need values. These agree with the
  standard library on the inputs used below: \<^verbatim>\<open>json.Marshal\<close> encodes \<^verbatim>\<open>nil\<close> and the
  booleans and has no encoding for a channel or a function; \<^verbatim>\<open>httptest.NewRequest\<close> on a
  method and a target without spaces gives a request with no header and the host
  \<^verbatim>\<open>example.com\<close>; the cookie sanitisers leave letters and digits alone.
\<close>

datatype go_value = GoNil | GoBool bool | GoChan | GoFunc

fun sampleMarshal :: "go_value marshaler" where
  "sampleMarshal GoNil = (Some ''null'', None)"
| "sampleMarshal (GoBool b) = (Some (if b then ''true'' else ''false''), None)"
| "sampleMarshal GoChan = (None, Some (ErrorString ''json: unsupported type: chan int''))"
| "sampleMarshal GoFunc = (None, Some (ErrorString ''json: unsupported type: func()''))"

definition sampleNewRequest :: "string \<Rightarrow> string \<Rightarrow> bytes option \<Rightarrow> string + unit Request" where
  "sampleNewRequest method target body =
     (if target = [] \<or> CHR '' '' \<in> set (method @ target)
      then Inl ''invalid NewRequest arguments''
      else Inr \<lparr>req_Method = (if method = [] then ''GET'' else method),
                req_RequestURI = target, req_Header = Map.empty, req_Host = ''example.com'',
                req_Body = (case body of None \<Rightarrow> [] | Some b \<Rightarrow> b), req_Context = None\<rparr>)"

definition sampleLib :: "unit net_http" where
  "sampleLib = \<lparr>httptest_NewRequest = sampleNewRequest,
                sanitizeCookieName = (\<lambda>n. n), sanitizeCookieValue = (\<lambda>v q. v)\<rparr>"

text \<open>A handler that answers 201 with the request's body, as JSON.\<close>

definition echoHandler :: "unit Handler" where
  "echoHandler rec req =
     Inr (rec\<lparr>rec_Code := 201,
              rec_HeaderMap :=
                Header_Set (rec_HeaderMap rec) ''Content-Type'' ''application/json; charset=utf-8'',
              rec_Body := req_Body req\<rparr>)"

definition sampleParse :: "bytes \<Rightarrow> (string \<times> int) list option" where
  \<open>sampleParse raw =
     (if raw = ''{"known":1,"unknown":2}'' then Some [(''known'', 1), (''unknown'', 2)]
      else None)\<close>

definition recorded :: "string \<Rightarrow> bytes \<Rightarrow> CompletedRequest" where
  "recorded ctype body =
     \<lparr>Recorder = \<lparr>rec_Code = 200, rec_HeaderMap = [''Content-Type'' \<mapsto> [ctype]], rec_Body = body\<rparr>,
      Strict = False\<rparr>"

text \<open>A builder whose JSON body is a channel, which has no encoding.\<close>

definition brokenRequest :: "unit RequestBuilder" where
  "brokenRequest = WithJsonBody sampleMarshal GoChan (Get ''/items'' NewRequest)"

text \<open>
  A builder with one header name in two spellings, and a chain that appends three
  cookies, the first and the last alike.
\<close>

definition caseVariants :: "unit RequestBuilder" where
  "caseVariants = WithHeader ''X-Id'' ''2'' (WithHeader ''x-id'' ''1'' (Get ''/'' NewRequest))"

definition threeCookies :: "(go_value, unit) call list" where
  "threeCookies =
     [Call_Get ''/'', Call_WithCookieNameValue ''a'' ''1'',
      Call_WithCookie (Some \<lparr>Name = ''b'', Value = ''2'', Quoted = False\<rparr>),
      Call_WithCookieNameValue ''a'' ''1'']"

text \<open>
  A target structure with the one field \<^verbatim>\<open>known\<close>, and a recorded JSON response with one
  member more.
\<close>

definition knownOnly :: "string \<rightharpoonup> int" where
  "knownOnly = [''known'' \<mapsto> 0]"

definition knownAndUnknown :: CompletedRequest where
  \<open>knownAndUnknown = recorded ''application/json; charset=utf-8'' ''{"known":1,"unknown":2}''\<close>

section \<open>Properties\<close>

subsection \<open>Lemmas about the header map, the cookies and the builder\<close>

lemma Header_Values_raw: "Header_Values h key = rawValues h (CanonicalMIMEHeaderKey key)"
  by (simp add: Header_Values_def rawValues_def)

lemma canonical_Cookie: "CanonicalMIMEHeaderKey ''Cookie'' = ''Cookie''"
  by code_simp

lemma canonical_Host: "CanonicalMIMEHeaderKey ''Host'' = ''Host''"
  by code_simp

lemma canonical_Content_Type: "CanonicalMIMEHeaderKey ''Content-Type'' = ''Content-Type''"
  by code_simp

lemma addHeaders_Host [simp]: "req_Host (addHeaders order hs req) = req_Host req"
  unfolding addHeaders_def
  by (induction order arbitrary: req) (auto split: option.splits)

lemma addHeaders_Context [simp]: "req_Context (addHeaders order hs req) = req_Context req"
  unfolding addHeaders_def
  by (induction order arbitrary: req) (auto split: option.splits)

lemma rawValues_Add:
  "rawValues (Header_Add h key v) k =
     (if CanonicalMIMEHeaderKey key = k then rawValues h k @ [v] else rawValues h k)"
  by (simp add: Header_Add_def rawValues_def Let_def)

lemma addHeaders_values:
  "rawValues (req_Header (addHeaders order hs req)) k =
     rawValues (req_Header req) k @ valuesFor order hs k"
proof (induction order arbitrary: req)
  case Nil
  show ?case by (simp add: addHeaders_def valuesFor_def)
next
  case (Cons h order)
  have step: "addHeaders (h # order) hs req =
      addHeaders order hs
        (case hs h of None \<Rightarrow> req
         | Some v \<Rightarrow> req\<lparr>req_Header := Header_Add (req_Header req) h v\<rparr>)"
    by (simp add: addHeaders_def)
  have split: "valuesFor (h # order) hs k =
      (case hs h of Some v \<Rightarrow> if CanonicalMIMEHeaderKey h = k then [v] else [] | None \<Rightarrow> [])
        @ valuesFor order hs k"
    by (simp add: valuesFor_def)
  show ?case
    unfolding step split Cons.IH
    by (cases "hs h") (simp_all add: rawValues_Add)
qed

lemma valuesFor_none:
  "(\<And>h'. h' \<in> set order \<Longrightarrow> hs h' \<noteq> None \<Longrightarrow> CanonicalMIMEHeaderKey h' \<noteq> k) \<Longrightarrow>
     valuesFor order hs k = []"
  by (induction order) (auto simp: valuesFor_def split: option.splits)

lemma valuesFor_single:
  assumes "distinct order" and "h \<in> set order" and "hs h = Some v"
    and "\<And>h'. h' \<in> set order \<Longrightarrow> h' \<noteq> h \<Longrightarrow> hs h' \<noteq> None \<Longrightarrow> CanonicalMIMEHeaderKey h' \<noteq> CanonicalMIMEHeaderKey h"
  shows "valuesFor order hs (CanonicalMIMEHeaderKey h) = [v]"
  using assms
proof (induction order)
  case Nil
  then show ?case by simp
next
  case (Cons a order)
  show ?case
  proof (cases "a = h")
    case True
    have "h \<notin> set order" using Cons.prems(1) True by simp
    have rest: "valuesFor order hs (CanonicalMIMEHeaderKey h) = []"
    proof (rule valuesFor_none)
      fix h' assume "h' \<in> set order" and "hs h' \<noteq> None"
      moreover from this \<open>h \<notin> set order\<close> have "h' \<noteq> h" by auto
      ultimately show "CanonicalMIMEHeaderKey h' \<noteq> CanonicalMIMEHeaderKey h"
        using Cons.prems(4)[of h'] by simp
    qed
    show ?thesis using True rest Cons.prems(3) by (simp add: valuesFor_def)
  next
    case False
    then have "h \<in> set order" using Cons.prems(2) by simp
    moreover have "distinct order" using Cons.prems(1) by simp
    ultimately have ih: "valuesFor order hs (CanonicalMIMEHeaderKey h) = [v]"
      using Cons.IH Cons.prems(3,4) by simp
    have "(case hs a of Some v \<Rightarrow> if CanonicalMIMEHeaderKey a = CanonicalMIMEHeaderKey h then [v] else [] | None \<Rightarrow> []) = []"
      using Cons.prems(4)[of a] False by (auto split: option.splits)
    then show ?thesis using ih by (simp add: valuesFor_def)
  qed
qed

lemma valuesFor_member:
  "h \<in> set order \<Longrightarrow> hs h = Some v \<Longrightarrow> v \<in> set (valuesFor order hs (CanonicalMIMEHeaderKey h))"
  by (auto simp: valuesFor_def intro!: bexI[of _ h])

lemma setHost_Header [simp]: "req_Header (setHost hs req) = req_Header req"
  by (simp add: setHost_def split: option.splits)

lemma setHost_Some: "hs ''Host'' = Some v \<Longrightarrow> req_Host (setHost hs req) = v"
  by (simp add: setHost_def)

lemma withContext_Header [simp]: "req_Header (withContext ctx req) = req_Header req"
  by (simp add: withContext_def split: option.splits)

lemma withContext_Host [simp]: "req_Host (withContext ctx req) = req_Host req"
  by (simp add: withContext_def split: option.splits)

lemma AddCookie_Host [simp]: "req_Host (AddCookie lib c req) = req_Host req"
  by (simp add: AddCookie_def Let_def)

lemma AddCookie_other:
  "k \<noteq> ''Cookie'' \<Longrightarrow> rawValues (req_Header (AddCookie lib c req)) k = rawValues (req_Header req) k"
  by (simp add: AddCookie_def Let_def Header_Set_def canonical_Cookie rawValues_def)

lemma AddCookie_Cookie:
  "rawValues (req_Header (AddCookie lib c req)) ''Cookie'' =
     [if Header_Get (req_Header req) ''Cookie'' = [] then cookiePair lib c
      else Header_Get (req_Header req) ''Cookie'' @ ''; '' @ cookiePair lib c]"
  by (simp add: AddCookie_def Let_def Header_Set_def canonical_Cookie rawValues_def)

lemma addCookies_Some: "addCookies lib (map Some cs) req = Inr (fold (AddCookie lib) cs req)"
  by (induction cs arbitrary: req) auto

lemma not_nil_cookies: "None \<notin> set cs \<Longrightarrow> map Some (map the cs) = cs"
  by (induction cs) auto

lemma fold_AddCookie_Host [simp]: "req_Host (fold (AddCookie lib) cs req) = req_Host req"
  by (induction cs arbitrary: req) auto

lemma fold_AddCookie_other:
  "k \<noteq> ''Cookie'' \<Longrightarrow> rawValues (req_Header (fold (AddCookie lib) cs req)) k = rawValues (req_Header req) k"
  by (induction cs arbitrary: req) (auto simp: AddCookie_other)

lemma Join_snoc: "xs \<noteq> [] \<Longrightarrow> Join (xs @ [y]) sep = Join xs sep @ sep @ y"
  by (induction xs sep rule: Join.induct) auto

lemma Join_nonempty: "xs \<noteq> [] \<Longrightarrow> hd xs \<noteq> [] \<Longrightarrow> Join xs sep \<noteq> []"
  by (induction xs sep rule: Join.induct) auto

lemma cookiePair_nonempty: "cookiePair lib c \<noteq> []"
  by (simp add: cookiePair_def)

lemma Header_Get_raw: "Header_Get h key = (case rawValues h (CanonicalMIMEHeaderKey key) of [] \<Rightarrow> [] | v # _ \<Rightarrow> v)"
  by (simp add: Header_Get_def Header_Values_raw)

lemma fold_AddCookie_Cookie:
  assumes "cs \<noteq> []"
  shows "rawValues (req_Header (fold (AddCookie lib) cs req)) ''Cookie'' =
           [Join ((if Header_Get (req_Header req) ''Cookie'' = [] then []
                   else [Header_Get (req_Header req) ''Cookie'']) @ map (cookiePair lib) cs) ''; '']"
  using assms
proof (induction cs rule: rev_induct)
  case Nil
  then show ?case by simp
next
  case (snoc c cs)
  let ?pre = "if Header_Get (req_Header req) ''Cookie'' = [] then []
              else [Header_Get (req_Header req) ''Cookie'']"
  show ?case
  proof (cases "cs = []")
    case True
    then show ?thesis by (simp add: AddCookie_Cookie)
  next
    case False
    let ?xs = "?pre @ map (cookiePair lib) cs"
    have ih: "rawValues (req_Header (fold (AddCookie lib) cs req)) ''Cookie'' = [Join ?xs ''; '']"
      using snoc.IH False by simp
    have ne: "?xs \<noteq> []" using False by simp
    have "hd ?xs \<noteq> []" using False by (cases cs) (auto simp: cookiePair_nonempty)
    then have j: "Join ?xs ''; '' \<noteq> []" using ne Join_nonempty by blast
    have get: "Header_Get (req_Header (fold (AddCookie lib) cs req)) ''Cookie'' = Join ?xs ''; ''"
      by (simp add: Header_Get_raw canonical_Cookie ih)
    have "rawValues (req_Header (fold (AddCookie lib) (cs @ [c]) req)) ''Cookie'' =
            [Join ?xs ''; '' @ ''; '' @ cookiePair lib c]"
      using j by (simp add: AddCookie_Cookie get)
    also have "Join ?xs ''; '' @ ''; '' @ cookiePair lib c = Join (?xs @ [cookiePair lib c]) ''; ''"
      using ne Join_snoc by metis
    finally show ?thesis by simp
  qed
qed

lemma served_built:
  "Error r = None \<Longrightarrow> buildRequest lib order r = Inr req \<Longrightarrow>
     served (GoWithHTTPHandler lib order r t handler) = [req]"
  by (simp add: GoWithHTTPHandler_def split: sum.splits)

lemma buildRequest_built:
  assumes "httptest_NewRequest lib (Method r) (Path r) (Body r) = Inr req0"
    and "Cookies r = map Some cs"
  shows "buildRequest lib order r =
           Inr (withContext (Context r)
                 (fold (AddCookie lib) cs (setHost (Headers r) (addHeaders order (Headers r) req0))))"
  using assms by (simp add: buildRequest_def addCookies_Some)

lemmas builder_defs =
  NewRequest_def WithMethod_def Get_def Post_def Put_def Patch_def Delete_def WithHeader_def
  WithJWSAuth_def WithHost_def WithContentType_def WithJsonContentType_def WithAccept_def
  WithAcceptJson_def WithBody_def WithJsonBody_def WithCookie_def WithCookieNameValue_def
  WithContext_def Let_def

lemma invoke_Error:
  "Error (invoke marshal c r) =
     (case marshalFailure marshal c of
        None \<Rightarrow> Error r
      | Some e \<Rightarrow> Some (Errorf_w ''failed to marshal json object: '' e))"
  by (cases c) (simp_all add: builder_defs split: prod.splits option.splits)

lemma invoke_Cookies: "Cookies (invoke marshal c r) = Cookies r @ appendedCookies c"
  by (cases c) (simp_all add: builder_defs split: prod.splits option.splits)

lemma configure_snoc: "configure marshal (calls @ [c]) r = invoke marshal c (configure marshal calls r)"
  by (simp add: configure_def)

lemma configure_Cookies:
  "Cookies (configure marshal calls r) = Cookies r @ concat (map appendedCookies calls)"
  by (induction calls rule: rev_induct) (simp_all add: configure_def invoke_Cookies)

lemma brokenRequest_Error:
  "Error brokenRequest =
     Some (WrapError ''failed to marshal json object: json: unsupported type: chan int''
             (ErrorString ''json: unsupported type: chan int''))"
  by (simp add: brokenRequest_def builder_defs Errorf_w_def)

lemma buildRequest_ok:
  assumes "httptest_NewRequest lib (Method r) (Path r) (Body r) = Inr req0"
    and "None \<notin> set (Cookies r)"
  shows "buildRequest lib order r =
           Inr (withContext (Context r)
                 (fold (AddCookie lib) (map the (Cookies r))
                    (setHost (Headers r) (addHeaders order (Headers r) req0))))"
  using buildRequest_built [OF assms(1), of "map the (Cookies r)" order]
    not_nil_cookies [OF assms(2)]
  by simp

lemmas run_defs =
  GoWithHTTPHandler_def buildRequest_def addHeaders_def setHost_def withContext_def
  AddCookie_def cookiePair_def Header_Add_def Header_Set_def Header_Get_def Header_Values_def
  sampleLib_def sampleNewRequest_def echoHandler_def NewRecorder_def

lemma fold_WithHeader_Headers:
  "Headers (fold (\<lambda>hv. WithHeader (fst hv) (snd hv)) hvs r0) h =
     (case map_of (rev hvs) h of Some x \<Rightarrow> Some x | None \<Rightarrow> Headers r0 h)"
  by (induction hvs rule: rev_induct) (simp_all add: WithHeader_def)

subsection \<open>Lemmas about decoding\<close>

lemma Split_first: "\<exists>ps. Split s sep = takeWhile (\<lambda>b. b \<noteq> sep) s # ps"
  by (induction s) (auto split: list.splits)

lemma UnmarshalBodyToObject_content:
  "UnmarshalBodyToObject getH c obj =
     (let ctype = Header_Get (rec_HeaderMap (Recorder c)) ''Content-Type'';
          content = TrimSpace (takeWhile (\<lambda>b. b \<noteq> CHR '';'') ctype)
      in case getH content of
           None \<Rightarrow> Inr (Some (ErrorString (''unhandled content: '' @ content)), obj, c)
         | Some handler \<Rightarrow>
             (case handler ctype (rec_Body (Recorder c)) obj (Strict c) of
                (err, obj', unread) \<Rightarrow>
                  Inr (err, obj', c\<lparr>Recorder := (Recorder c)\<lparr>rec_Body := unread\<rparr>\<rparr>)))"
proof -
  obtain ps where "Split (Header_Get (rec_HeaderMap (Recorder c)) ''Content-Type'') CHR '';'' =
      takeWhile (\<lambda>b. b \<noteq> CHR '';'') (Header_Get (rec_HeaderMap (Recorder c)) ''Content-Type'') # ps"
    using Split_first by blast
  then show ?thesis
    by (simp add: UnmarshalBodyToObject_def Let_def Errorf_s_def split: option.splits)
qed

lemmas trim_defs = TrimSpace_def leadingSpace_def trailingSpace_def asciiSpace_def unicodeSpaces_def

lemma recorded_Content_Type:
  "Header_Get (rec_HeaderMap (Recorder (recorded ctype body))) ''Content-Type'' = ctype"
  by (simp add: recorded_def Header_Get_def Header_Values_def canonical_Content_Type)

lemma bare_text_xml: "TrimSpace (takeWhile (\<lambda>b. b \<noteq> CHR '';'') ''text/xml'') = ''text/xml''"
  by (simp add: trim_defs)

lemma bare_json:
  "TrimSpace (takeWhile (\<lambda>b. b \<noteq> CHR '';'') ''application/json; charset=utf-8'') =
     ''application/json''"
  by (simp add: trim_defs)

lemma bare_json_spaced:
  "TrimSpace (takeWhile (\<lambda>b. b \<noteq> CHR '';'') '' application/json ; charset=utf-8'') =
     ''application/json''"
  by (simp add: trim_defs)

lemma decodeMembers_lenient:
  "decodeMembers False members target =
     Inr (\<lambda>f. case target f of
                 None \<Rightarrow> None
               | Some old \<Rightarrow> (case map_of (rev members) f of Some x \<Rightarrow> Some x | None \<Rightarrow> Some old))"
proof (induction members arbitrary: target)
  case Nil
  show ?case by (auto split: option.splits)
next
  case (Cons m members)
  obtain k v where m: "m = (k, v)" by (cases m)
  show ?case
  proof (cases "target k")
    case None
    then show ?thesis
      unfolding m by (auto simp: Cons.IH map_add_def split: option.splits)
  next
    case (Some old)
    then show ?thesis
      unfolding m by (auto simp: Cons.IH map_add_def split: option.splits)
  qed
qed

lemma decodeMembers_strict:
  "(k, v) \<in> set members \<Longrightarrow> target k = None \<Longrightarrow> \<exists>k'. decodeMembers True members target = Inl k'"
proof (induction members arbitrary: target)
  case Nil
  then show ?case by simp
next
  case (Cons m members)
  obtain k0 v0 where m: "m = (k0, v0)" by (cases m)
  show ?case
  proof (cases "target k0")
    case None
    then show ?thesis unfolding m by simp
  next
    case (Some old)
    then have "k0 \<noteq> k" using Cons.prems(2) by auto
    then have "(k, v) \<in> set members" and "(target(k0 \<mapsto> v0)) k = None"
      using Cons.prems m by auto
    then have "\<exists>k'. decodeMembers True members (target(k0 \<mapsto> v0)) = Inl k'"
      by (rule Cons.IH)
    then show ?thesis unfolding m using Some by simp
  qed
qed

subsection \<open>Dispatch with a deferred error\<close>

text \<open>
  C1. When the builder carries a deferred error, \<open>GoWithHTTPHandler\<close> calls the reporter's
  \<^verbatim>\<open>Errorf\<close> once, with that error, returns \<^verbatim>\<open>nil\<close> and does not call the handler (nor
  panic): the whole outcome is determined.
\<close>

theorem deferred_error_reported_once:
  assumes "Error r = Some e"
  shows "GoWithHTTPHandler lib order r t handler =
           \<lparr>builder = r, reporter = t @ [(''error constructing request: %s'', [e])],
            served = [], returned = None, panicked = None\<rparr>"
  using assms by (simp add: GoWithHTTPHandler_def Errorf_def)

theorem deferred_error_reported_once_witness:
  "Error brokenRequest =
     Some (WrapError ''failed to marshal json object: json: unsupported type: chan int''
             (ErrorString ''json: unsupported type: chan int'')) \<and>
   GoWithHTTPHandler sampleLib [''Content-Type''] brokenRequest [] echoHandler =
     \<lparr>builder = brokenRequest,
      reporter = [(''error constructing request: %s'',
                   [WrapError ''failed to marshal json object: json: unsupported type: chan int''
                      (ErrorString ''json: unsupported type: chan int'')])],
      served = [], returned = None, panicked = None\<rparr>"
  using deferred_error_reported_once
          [OF brokenRequest_Error, of sampleLib "[''Content-Type'']" "[]" echoHandler]
    brokenRequest_Error
  by simp

text \<open>
  C9. \<open>GoWithHTTPHandler\<close> assigns to no field of the builder: on every path (error
  reported, panic, handler served) the builder afterwards is the builder before. The
  handler is given the recorder and the request only.
\<close>

theorem dispatch_leaves_builder: "builder (GoWithHTTPHandler lib order r t handler) = r"
  by (simp add: GoWithHTTPHandler_def split: option.splits sum.splits)

theorem dispatch_leaves_builder_witness:
  "builder (GoWithHTTPHandler sampleLib [''Content-Type''] brokenRequest [] echoHandler) =
     brokenRequest \<and>
   Cookies (builder (GoWithHTTPHandler sampleLib []
              (WithCookieNameValue ''a'' ''1'' (Get ''/'' NewRequest)) [] echoHandler)) =
     [Some \<lparr>Name = ''a'', Value = ''1'', Quoted = False\<rparr>]"
  using dispatch_leaves_builder [of sampleLib "[''Content-Type'']" brokenRequest "[]" echoHandler]
    dispatch_leaves_builder
      [of sampleLib "[]" "WithCookieNameValue ''a'' ''1'' (Get ''/'' NewRequest)" "[]" echoHandler]
  by (simp add: builder_defs)

subsection \<open>The deferred error slot\<close>

text \<open>
  C3, as the code has it. The slot holds at most one error and every configuration call
  returns the builder. A call other than a failing \<open>WithJsonBody\<close> leaves the slot as it
  is; a failing \<open>WithJsonBody\<close> stores its own failure whatever the slot held. So after
  any sequence of calls the slot holds the failure of the last failing \<open>WithJsonBody\<close>,
  or what it held at the start when there was none.
\<close>

theorem deferred_error_last_failure_wins:
  "Error (configure marshal calls r) =
     (case List.map_filter (marshalFailure marshal) (rev calls) of
        [] \<Rightarrow> Error r
      | e # _ \<Rightarrow> Some (Errorf_w ''failed to marshal json object: '' e))"
proof (induction calls rule: rev_induct)
  case Nil
  show ?case by (simp add: configure_def List.map_filter_simps)
next
  case (snoc c calls)
  show ?case
    unfolding configure_snoc invoke_Error
    using snoc.IH
    by (cases "marshalFailure marshal c") (simp_all add: List.map_filter_simps)
qed

theorem deferred_error_last_failure_wins_witness:
  "Error (configure sampleMarshal
            [Call_WithJsonBody GoChan, Call_WithHeader ''Accept'' ''text/plain'',
             Call_WithJsonBody (GoBool True), Call_WithCookieNameValue ''a'' ''1'']
            (NewRequest :: unit RequestBuilder)) =
     Some (WrapError ''failed to marshal json object: json: unsupported type: chan int''
             (ErrorString ''json: unsupported type: chan int''))"
  using deferred_error_last_failure_wins
          [of sampleMarshal
              "[Call_WithJsonBody GoChan, Call_WithHeader ''Accept'' ''text/plain'',
                Call_WithJsonBody (GoBool True), Call_WithCookieNameValue ''a'' ''1'']"
              "NewRequest :: unit RequestBuilder"]
  by (simp add: List.map_filter_simps Errorf_w_def)

text \<open>
  C3 as stated fails: the first error does not win. After a \<open>WithJsonBody\<close> that fails on
  a channel the slot holds that failure; a second \<open>WithJsonBody\<close> that fails on a function
  replaces it.
\<close>

theorem first_error_overwritten:
  "Error (configure sampleMarshal [Call_WithJsonBody GoChan] (NewRequest :: unit RequestBuilder)) =
     Some (WrapError ''failed to marshal json object: json: unsupported type: chan int''
             (ErrorString ''json: unsupported type: chan int'')) \<and>
   Error (configure sampleMarshal [Call_WithJsonBody GoChan, Call_WithJsonBody GoFunc]
            (NewRequest :: unit RequestBuilder)) =
     Some (WrapError ''failed to marshal json object: json: unsupported type: func()''
             (ErrorString ''json: unsupported type: func()''))"
  by (simp add: configure_def builder_defs Errorf_w_def)

subsection \<open>WithJsonBody\<close>

text \<open>
  C4. For every object, \<open>WithJsonBody\<close> sets the body to what \<^verbatim>\<open>json.Marshal\<close> returns for
  it and the \<^verbatim>\<open>Content-Type\<close> header to \<^verbatim>\<open>application/json\<close>. When marshalling succeeds the
  deferred error is untouched. When it fails the call still returns the builder, with the
  wrapped failure in the deferred slot, and the failure shows at dispatch: the reporter is
  called with it, nothing is returned and the handler is not called.
\<close>

theorem WithJsonBody_body_type_and_error:
  "Body (WithJsonBody marshal obj r) = fst (marshal obj) \<and>
   Headers (WithJsonBody marshal obj r) ''Content-Type'' = Some ''application/json'' \<and>
   (snd (marshal obj) = None \<longrightarrow> Error (WithJsonBody marshal obj r) = Error r) \<and>
   (\<forall>e. snd (marshal obj) = Some e \<longrightarrow>
      Error (WithJsonBody marshal obj r) =
        Some (WrapError (''failed to marshal json object: '' @ error_text e) e) \<and>
      GoWithHTTPHandler lib order (WithJsonBody marshal obj r) t handler =
        \<lparr>builder = WithJsonBody marshal obj r,
         reporter = t @ [(''error constructing request: %s'',
                          [WrapError (''failed to marshal json object: '' @ error_text e) e])],
         served = [], returned = None, panicked = None\<rparr>)"
  by (auto simp: builder_defs Errorf_w_def GoWithHTTPHandler_def Errorf_def
      split: prod.splits option.splits)

theorem WithJsonBody_body_type_and_error_witness:
  "Body (WithJsonBody sampleMarshal (GoBool True) (Post ''/items'' (NewRequest :: unit RequestBuilder))) =
     Some ''true'' \<and>
   Headers (WithJsonBody sampleMarshal (GoBool True) (Post ''/items'' (NewRequest :: unit RequestBuilder)))
     ''Content-Type'' = Some ''application/json'' \<and>
   Error (WithJsonBody sampleMarshal (GoBool True) (Post ''/items'' (NewRequest :: unit RequestBuilder))) =
     None \<and>
   Body (WithJsonBody sampleMarshal GoFunc (Post ''/items'' (NewRequest :: unit RequestBuilder))) = None \<and>
   Error (WithJsonBody sampleMarshal GoFunc (Post ''/items'' (NewRequest :: unit RequestBuilder))) =
     Some (WrapError ''failed to marshal json object: json: unsupported type: func()''
             (ErrorString ''json: unsupported type: func()'')) \<and>
   returned (GoWithHTTPHandler sampleLib [''Content-Type'']
               (WithJsonBody sampleMarshal GoFunc (Post ''/items'' NewRequest)) [] echoHandler) = None \<and>
   served (GoWithHTTPHandler sampleLib [''Content-Type'']
             (WithJsonBody sampleMarshal GoFunc (Post ''/items'' NewRequest)) [] echoHandler) = [] \<and>
   reporter (GoWithHTTPHandler sampleLib [''Content-Type'']
               (WithJsonBody sampleMarshal GoFunc (Post ''/items'' NewRequest)) [] echoHandler) =
     [(''error constructing request: %s'',
       [WrapError ''failed to marshal json object: json: unsupported type: func()''
          (ErrorString ''json: unsupported type: func()'')])]"
  using WithJsonBody_body_type_and_error
          [of sampleMarshal "GoBool True" "Post ''/items'' (NewRequest :: unit RequestBuilder)"
              sampleLib "[''Content-Type'']" "[]" echoHandler]
    WithJsonBody_body_type_and_error
          [of sampleMarshal GoFunc "Post ''/items'' (NewRequest :: unit RequestBuilder)"
              sampleLib "[''Content-Type'']" "[]" echoHandler]
  by (simp add: NewRequest_def Post_def WithMethod_def)

subsection \<open>The synthesized request\<close>

text \<open>
  C2, as the code has it. When the builder's headers contain the key \<^verbatim>\<open>Host\<close>, the request
  handed to the handler has that value as its host field, and the value is also among the
  values of the request's \<^verbatim>\<open>Host\<close> header: the header loop adds every configured header,
  \<^verbatim>\<open>Host\<close> included. (The premises say that dispatch reaches the handler: no deferred
  error, \<^verbatim>\<open>httptest.NewRequest\<close> accepts method and path, no cookie is \<^verbatim>\<open>nil\<close>.)
\<close>

theorem Host_sets_host_and_stays_header:
  assumes "Headers r ''Host'' = Some v"
    and "rangeOrder (Headers r) order"
    and "Error r = None"
    and "httptest_NewRequest lib (Method r) (Path r) (Body r) = Inr req0"
    and "None \<notin> set (Cookies r)"
  shows "\<exists>req. served (GoWithHTTPHandler lib order r t handler) = [req] \<and>
               req_Host req = v \<and> v \<in> set (Header_Values (req_Header req) ''Host'')"
proof -
  let ?req = "withContext (Context r)
                (fold (AddCookie lib) (map the (Cookies r))
                   (setHost (Headers r) (addHeaders order (Headers r) req0)))"
  have built: "buildRequest lib order r = Inr ?req"
    using buildRequest_ok [OF assms(4,5)] .
  have served: "served (GoWithHTTPHandler lib order r t handler) = [?req]"
    using served_built [OF assms(3) built] .
  have host: "req_Host ?req = v"
    using assms(1) by (simp add: setHost_def)
  have "''Host'' \<in> set order"
    using assms(1,2) by (auto simp: rangeOrder_def)
  then have "v \<in> set (valuesFor order (Headers r) ''Host'')"
    using valuesFor_member [of "''Host''" order "Headers r" v] assms(1)
    by (simp add: canonical_Host)
  then have "v \<in> set (rawValues (req_Header ?req) ''Host'')"
    by (simp add: fold_AddCookie_other addHeaders_values)
  then have "v \<in> set (Header_Values (req_Header ?req) ''Host'')"
    by (simp add: Header_Values_raw canonical_Host)
  with served host show ?thesis by blast
qed

theorem Host_sets_host_and_stays_header_witness:
  "served (GoWithHTTPHandler sampleLib [''Accept'', ''Host'']
             (WithAcceptJson (WithHost ''api.test'' (Get ''/'' NewRequest))) [] echoHandler) =
     [\<lparr>req_Method = ''GET'', req_RequestURI = ''/'',
       req_Header = [''Accept'' \<mapsto> [''application/json''], ''Host'' \<mapsto> [''api.test'']],
       req_Host = ''api.test'', req_Body = [], req_Context = None\<rparr>]"
proof -
  let ?r = "WithAcceptJson (WithHost ''api.test'' (Get ''/'' (NewRequest :: unit RequestBuilder)))"
  have 1: "Headers ?r ''Host'' = Some ''api.test''" by (simp add: builder_defs)
  have 2: "rangeOrder (Headers ?r) [''Accept'', ''Host'']"
    by (auto simp add: builder_defs rangeOrder_def)
  have 3: "Error ?r = None" by (simp add: builder_defs)
  have 4: "httptest_NewRequest sampleLib (Method ?r) (Path ?r) (Body ?r) =
             Inr \<lparr>req_Method = ''GET'', req_RequestURI = ''/'', req_Header = Map.empty,
                  req_Host = ''example.com'', req_Body = [], req_Context = None\<rparr>"
    by (simp add: builder_defs sampleLib_def sampleNewRequest_def)
  have 5: "None \<notin> set (Cookies ?r)" by (simp add: builder_defs)
  have c: "CanonicalMIMEHeaderKey ''Accept'' = ''Accept''" by code_simp
  from Host_sets_host_and_stays_header [OF 1 2 3 4 5, of "[]" echoHandler]
  show ?thesis
    by (simp add: builder_defs run_defs canonical_Host c)
qed

text \<open>
  C2 as stated fails in its second half: with \<^verbatim>\<open>WithHost("api.test")\<close> the request gets
  the host field and a \<^verbatim>\<open>Host\<close> header with the same value.
\<close>

theorem Host_is_also_a_header:
  "req_Host (hd (served (GoWithHTTPHandler sampleLib [''Host'']
                           (WithHost ''api.test'' (Get ''/'' NewRequest)) [] echoHandler))) =
     ''api.test'' \<and>
   Header_Values
     (req_Header (hd (served (GoWithHTTPHandler sampleLib [''Host'']
                                (WithHost ''api.test'' (Get ''/'' NewRequest)) [] echoHandler))))
     ''Host'' = [''api.test''] \<and>
   rangeOrder (Headers (WithHost ''api.test'' (Get ''/'' (NewRequest :: unit RequestBuilder)))) [''Host'']"
  by (simp add: builder_defs run_defs canonical_Host rangeOrder_def)

text \<open>
  C6. The cookies a chain of configuration calls appends are kept in append order, and the
  request handed to the handler carries them in that order, duplicates included: its
  \<^verbatim>\<open>Cookie\<close> header is the single value made of their \<^verbatim>\<open>name=value\<close> pairs joined by
  \<^verbatim>\<open>"; "\<close>, after the value of a configured \<^verbatim>\<open>Cookie\<close> header if there is one.
\<close>

theorem cookies_attached_in_append_order:
  assumes "r = configure marshal calls NewRequest"
    and "concat (map appendedCookies calls) = map Some cs"
    and "cs \<noteq> []"
    and "Error r = None"
    and "httptest_NewRequest lib (Method r) (Path r) (Body r) = Inr req0"
  shows "Cookies r = map Some cs \<and>
         (\<exists>req. served (GoWithHTTPHandler lib order r t handler) = [req] \<and>
            Header_Values (req_Header req) ''Cookie'' =
              [Join ((let c0 = Header_Get (req_Header (addHeaders order (Headers r) req0)) ''Cookie''
                      in if c0 = [] then [] else [c0]) @ map (cookiePair lib) cs) ''; ''])"
proof -
  let ?req1 = "setHost (Headers r) (addHeaders order (Headers r) req0)"
  let ?req = "withContext (Context r) (fold (AddCookie lib) cs ?req1)"
  have cookies: "Cookies r = map Some cs"
    using assms(1,2) by (simp add: configure_Cookies NewRequest_def)
  have built: "buildRequest lib order r = Inr ?req"
    using buildRequest_built [OF assms(5) cookies] .
  have served: "served (GoWithHTTPHandler lib order r t handler) = [?req]"
    using served_built [OF assms(4) built] .
  have "Header_Values (req_Header ?req) ''Cookie'' =
          rawValues (req_Header (fold (AddCookie lib) cs ?req1)) ''Cookie''"
    by (simp add: Header_Values_raw canonical_Cookie)
  also have "\<dots> = [Join ((if Header_Get (req_Header ?req1) ''Cookie'' = [] then []
                          else [Header_Get (req_Header ?req1) ''Cookie''])
                         @ map (cookiePair lib) cs) ''; '']"
    using fold_AddCookie_Cookie [OF assms(3)] .
  finally have "Header_Values (req_Header ?req) ''Cookie'' =
      [Join ((let c0 = Header_Get (req_Header (addHeaders order (Headers r) req0)) ''Cookie''
              in if c0 = [] then [] else [c0]) @ map (cookiePair lib) cs) ''; '']"
    by (simp add: Let_def)
  with cookies served show ?thesis by blast
qed

theorem cookies_attached_in_append_order_witness:
  "Cookies (configure sampleMarshal threeCookies NewRequest) =
     [Some \<lparr>Name = ''a'', Value = ''1'', Quoted = False\<rparr>,
      Some \<lparr>Name = ''b'', Value = ''2'', Quoted = False\<rparr>,
      Some \<lparr>Name = ''a'', Value = ''1'', Quoted = False\<rparr>] \<and>
   Header_Values
     (req_Header (hd (served (GoWithHTTPHandler sampleLib []
                                (configure sampleMarshal threeCookies NewRequest) [] echoHandler))))
     ''Cookie'' = [''a=1; b=2; a=1'']"
proof -
  let ?r = "configure sampleMarshal threeCookies (NewRequest :: unit RequestBuilder)"
  let ?cs = "[\<lparr>Name = ''a'', Value = ''1'', Quoted = False\<rparr>,
              \<lparr>Name = ''b'', Value = ''2'', Quoted = False\<rparr>,
              \<lparr>Name = ''a'', Value = ''1'', Quoted = False\<rparr>]"
  have 2: "concat (map appendedCookies threeCookies) = map Some ?cs"
    by (simp add: threeCookies_def)
  have 3: "?cs \<noteq> []" by simp
  have 4: "Error ?r = None" by (simp add: threeCookies_def configure_def builder_defs)
  have 5: "httptest_NewRequest sampleLib (Method ?r) (Path ?r) (Body ?r) =
             Inr \<lparr>req_Method = ''GET'', req_RequestURI = ''/'', req_Header = Map.empty,
                  req_Host = ''example.com'', req_Body = [], req_Context = None\<rparr>"
    by (simp add: threeCookies_def configure_def builder_defs sampleLib_def sampleNewRequest_def)
  from cookies_attached_in_append_order [OF refl 2 3 4 5, of "[]" "[]" echoHandler]
  show ?thesis
    by (auto simp add: addHeaders_def Header_Get_def Header_Values_def cookiePair_def sampleLib_def)
qed

text \<open>
  C7, as the code has it. In the builder a later \<open>WithHeader\<close> with the same name replaces
  the earlier value. The request handed to the handler carries exactly one value for a
  configured name, the last one set, provided that no two configured names have the same
  canonical form, that the request line brought no header of its own, and that the name
  is not \<^verbatim>\<open>Cookie\<close> when cookies are attached. \<^verbatim>\<open>Host\<close> is no exception.
\<close>

theorem header_last_write_wins:
  assumes "r = fold (\<lambda>hv. WithHeader (fst hv) (snd hv)) hvs r0"
    and "rangeOrder (Headers r) order"
    and "inj_on CanonicalMIMEHeaderKey (dom (Headers r))"
    and "Error r = None"
    and "httptest_NewRequest lib (Method r) (Path r) (Body r) = Inr req0"
    and "req_Header req0 = Map.empty"
    and "None \<notin> set (Cookies r)"
    and "Cookies r = [] \<or> CanonicalMIMEHeaderKey h \<noteq> ''Cookie''"
    and "Headers r h = Some v"
  shows "Headers r h = (case map_of (rev hvs) h of Some x \<Rightarrow> Some x | None \<Rightarrow> Headers r0 h) \<and>
         (\<exists>req. served (GoWithHTTPHandler lib order r t handler) = [req] \<and>
            Header_Values (req_Header req) h = [v])"
proof -
  let ?req1 = "setHost (Headers r) (addHeaders order (Headers r) req0)"
  let ?req = "withContext (Context r) (fold (AddCookie lib) (map the (Cookies r)) ?req1)"
  let ?k = "CanonicalMIMEHeaderKey h"
  have last: "Headers r h = (case map_of (rev hvs) h of Some x \<Rightarrow> Some x | None \<Rightarrow> Headers r0 h)"
    unfolding assms(1) by (rule fold_WithHeader_Headers)
  have built: "buildRequest lib order r = Inr ?req"
    using buildRequest_built [OF assms(5), of "map the (Cookies r)" order]
      not_nil_cookies [OF assms(7)] by simp
  have served: "served (GoWithHTTPHandler lib order r t handler) = [?req]"
    using served_built [OF assms(4) built] .
  have dist: "distinct order" and mem: "h \<in> set order"
    using assms(2,9) by (auto simp: rangeOrder_def)
  have other: "CanonicalMIMEHeaderKey h' \<noteq> ?k"
    if "h' \<in> set order" "h' \<noteq> h" "Headers r h' \<noteq> None" for h'
  proof
    assume eq: "CanonicalMIMEHeaderKey h' = ?k"
    have "h' \<in> dom (Headers r)" "h \<in> dom (Headers r)"
      using that(3) assms(9) by auto
    with assms(3) eq have "h' = h" by (rule inj_onD)
    with that(2) show False by simp
  qed
  have one: "valuesFor order (Headers r) ?k = [v]"
    using valuesFor_single [of order h "Headers r" v] dist mem assms(9) other by blast
  have none: "rawValues (req_Header req0) ?k = []"
    by (simp add: assms(6) rawValues_def)
  have added: "rawValues (req_Header ?req1) ?k = [v]"
    by (simp add: addHeaders_values one none)
  have "rawValues (req_Header (fold (AddCookie lib) (map the (Cookies r)) ?req1)) ?k =
          rawValues (req_Header ?req1) ?k"
  proof (cases "Cookies r = []")
    case True
    then show ?thesis by simp
  next
    case False
    with assms(8) have "?k \<noteq> ''Cookie''" by simp
    then show ?thesis by (rule fold_AddCookie_other)
  qed
  with added have "Header_Values (req_Header ?req) h = [v]"
    by (simp add: Header_Values_raw)
  with last served show ?thesis by blast
qed

theorem header_last_write_wins_witness:
  "Headers (fold (\<lambda>hv. WithHeader (fst hv) (snd hv))
              [(''Accept'', ''text/plain''), (''X-Id'', ''7''), (''Accept'', ''application/json'')]
              (Get ''/'' (NewRequest :: unit RequestBuilder))) ''Accept'' =
     Some ''application/json'' \<and>
   Header_Values
     (req_Header (hd (served (GoWithHTTPHandler sampleLib [''X-Id'', ''Accept'']
        (fold (\<lambda>hv. WithHeader (fst hv) (snd hv))
              [(''Accept'', ''text/plain''), (''X-Id'', ''7''), (''Accept'', ''application/json'')]
              (Get ''/'' NewRequest)) [] echoHandler))))
     ''Accept'' = [''application/json'']"
proof -
  let ?hvs = "[(''Accept'', ''text/plain''), (''X-Id'', ''7''), (''Accept'', ''application/json'')]"
  let ?r = "fold (\<lambda>hv. WithHeader (fst hv) (snd hv)) ?hvs (Get ''/'' (NewRequest :: unit RequestBuilder))"
  have c1: "CanonicalMIMEHeaderKey ''Accept'' = ''Accept''" by code_simp
  have c2: "CanonicalMIMEHeaderKey ''X-Id'' = ''X-Id''" by code_simp
  have 2: "rangeOrder (Headers ?r) [''X-Id'', ''Accept'']"
    by (auto simp add: builder_defs rangeOrder_def)
  have 3: "inj_on CanonicalMIMEHeaderKey (dom (Headers ?r))"
    by (simp add: builder_defs c1 c2)
  have 4: "Error ?r = None" by (simp add: builder_defs)
  have 5: "httptest_NewRequest sampleLib (Method ?r) (Path ?r) (Body ?r) =
             Inr \<lparr>req_Method = ''GET'', req_RequestURI = ''/'', req_Header = Map.empty,
                  req_Host = ''example.com'', req_Body = [], req_Context = None\<rparr>"
    by (simp add: builder_defs sampleLib_def sampleNewRequest_def)
  have 6: "req_Header \<lparr>req_Method = ''GET'', req_RequestURI = ''/'', req_Header = Map.empty,
                  req_Host = ''example.com'', req_Body = [], req_Context = None :: unit option\<rparr> = Map.empty"
    by simp
  have 7: "None \<notin> set (Cookies ?r)" by (simp add: builder_defs)
  have 8: "Cookies ?r = [] \<or> CanonicalMIMEHeaderKey ''Accept'' \<noteq> ''Cookie''"
    by (simp add: builder_defs)
  have 9: "Headers ?r ''Accept'' = Some ''application/json''" by (simp add: builder_defs)
  from header_last_write_wins [OF refl 2 3 4 5 6 7 8 9, of "[]" echoHandler]
  show ?thesis by auto
qed

text \<open>
  C7 as stated fails: the names \<^verbatim>\<open>x-id\<close> and \<^verbatim>\<open>X-Id\<close> are two keys of the builder's map
  and one canonical name, so the request carries two values under it.
\<close>

theorem case_variants_give_two_values:
  "Headers caseVariants ''x-id'' = Some ''1'' \<and>
   Headers caseVariants ''X-Id'' = Some ''2'' \<and>
   rangeOrder (Headers caseVariants) [''x-id'', ''X-Id''] \<and>
   Header_Values
     (req_Header (hd (served (GoWithHTTPHandler sampleLib [''x-id'', ''X-Id''] caseVariants []
                                echoHandler))))
     ''x-id'' = [''1'', ''2'']"
proof -
  have c1: "CanonicalMIMEHeaderKey ''x-id'' = ''X-Id''" by code_simp
  have c2: "CanonicalMIMEHeaderKey ''X-Id'' = ''X-Id''" by code_simp
  show ?thesis
    by (auto simp add: caseVariants_def builder_defs run_defs rangeOrder_def c1 c2)
qed

subsection \<open>Decoding the recorded response\<close>

text \<open>
  C5. \<open>UnmarshalBodyToObject\<close> takes the value of the response's \<^verbatim>\<open>Content-Type\<close> header,
  keeps what stands before the first \<^verbatim>\<open>;\<close> and trims white space from it: that is the
  media type the decoder is looked up by. With no decoder registered for it the result is
  the error \<^verbatim>\<open>unhandled content: \<close> followed by the media type, and target and response
  are as before. With a decoder registered the result is what that decoder returns for the
  whole header value, the recorded body, the target and the strictness flag.
\<close>

theorem UnmarshalBodyToObject_by_media_type:
  assumes "Header_Get (rec_HeaderMap (Recorder c)) ''Content-Type'' = ctype"
    and "TrimSpace (takeWhile (\<lambda>b. b \<noteq> CHR '';'') ctype) = content"
  shows "(getH content = None \<longrightarrow>
            UnmarshalBodyToObject getH c obj =
              Inr (Some (ErrorString (''unhandled content: '' @ content)), obj, c)) \<and>
         (\<forall>handler. getH content = Some handler \<longrightarrow>
            (\<exists>err obj' unread.
               handler ctype (rec_Body (Recorder c)) obj (Strict c) = (err, obj', unread) \<and>
               UnmarshalBodyToObject getH c obj =
                 Inr (err, obj', c\<lparr>Recorder := (Recorder c)\<lparr>rec_Body := unread\<rparr>\<rparr>)))"
  unfolding UnmarshalBodyToObject_content [of getH c obj] Let_def assms
  by (auto split: prod.splits)

theorem UnmarshalBodyToObject_by_media_type_witness:
  "UnmarshalBodyToObject (getHandler sampleParse) (recorded ''text/xml'' ''<a/>'') knownOnly =
     Inr (Some (ErrorString ''unhandled content: text/xml''), knownOnly,
          recorded ''text/xml'' ''<a/>'') \<and>
   UnmarshalBodyToObject (getHandler sampleParse)
       (recorded '' application/json ; charset=utf-8'' ''{}'') knownOnly =
     Inr (Some (ErrorString ''invalid character''), knownOnly,
          (recorded '' application/json ; charset=utf-8'' ''{}'')
            \<lparr>Recorder := (Recorder (recorded '' application/json ; charset=utf-8'' ''{}''))
                           \<lparr>rec_Body := []\<rparr>\<rparr>)"
proof -
  have none: "getHandler sampleParse ''text/xml'' = None"
    by (simp add: getHandler_def knownHandlers_def)
  have some: "getHandler sampleParse ''application/json'' = Some (jsonHandler sampleParse)"
    by (simp add: getHandler_def knownHandlers_def)
  have body: "rec_Body (Recorder (recorded ctype ''{}'')) = ''{}''" for ctype
    by (simp add: recorded_def)
  have strict: "Strict (recorded ctype b) = False" for ctype b
    by (simp add: recorded_def)
  have run: "jsonHandler sampleParse ctype ''{}'' knownOnly False =
               (Some (ErrorString ''invalid character''), knownOnly, [])" for ctype
    by (simp add: jsonHandler_def sampleParse_def)
  from UnmarshalBodyToObject_by_media_type
         [OF recorded_Content_Type bare_text_xml, of "getHandler sampleParse" "''<a/>''" knownOnly]
  have 1: "UnmarshalBodyToObject (getHandler sampleParse) (recorded ''text/xml'' ''<a/>'') knownOnly =
     Inr (Some (ErrorString ''unhandled content: text/xml''), knownOnly,
          recorded ''text/xml'' ''<a/>'')"
    by (simp add: none)
  from UnmarshalBodyToObject_by_media_type
         [OF recorded_Content_Type bare_json_spaced, of "getHandler sampleParse" "''{}''" knownOnly]
  have 2: "UnmarshalBodyToObject (getHandler sampleParse)
       (recorded '' application/json ; charset=utf-8'' ''{}'') knownOnly =
     Inr (Some (ErrorString ''invalid character''), knownOnly,
          (recorded '' application/json ; charset=utf-8'' ''{}'')
            \<lparr>Recorder := (Recorder (recorded '' application/json ; charset=utf-8'' ''{}''))
                           \<lparr>rec_Body := []\<rparr>\<rparr>)"
    by (simp add: some body strict run)
  from 1 2 show ?thesis by simp
qed

text \<open>
  C10. When the recorded response has no \<^verbatim>\<open>Content-Type\<close> value, the media type looked up
  is the empty string: no JSON decoder is tried in its place, and with nothing registered
  for the empty media type the result is the error \<^verbatim>\<open>unhandled content: \<close> with the target
  as it was.
\<close>

theorem no_content_type_is_unhandled:
  assumes "Header_Get (rec_HeaderMap (Recorder c)) ''Content-Type'' = []"
    and "getH [] = None"
  shows "UnmarshalBodyToObject getH c obj =
           Inr (Some (ErrorString ''unhandled content: ''), obj, c)"
  using assms by (simp add: UnmarshalBodyToObject_def Errorf_s_def trim_defs)

theorem no_content_type_is_unhandled_witness:
  "Header_Get (rec_HeaderMap (Recorder \<lparr>Recorder = NewRecorder, Strict = False\<rparr>))
     ''Content-Type'' = [] \<and>
   getHandler sampleParse [] = None \<and>
   UnmarshalBodyToObject (getHandler sampleParse)
     \<lparr>Recorder = NewRecorder, Strict = False\<rparr> knownOnly =
     Inr (Some (ErrorString ''unhandled content: ''), knownOnly,
          \<lparr>Recorder = NewRecorder, Strict = False\<rparr>)"
proof -
  have 1: "Header_Get (rec_HeaderMap (Recorder \<lparr>Recorder = NewRecorder, Strict = False\<rparr>))
     ''Content-Type'' = []"
    by (simp add: NewRecorder_def Header_Get_def Header_Values_def)
  have 2: "getHandler sampleParse [] = None"
    by (simp add: getHandler_def knownHandlers_def)
  from no_content_type_is_unhandled
         [of "\<lparr>Recorder = NewRecorder, Strict = False\<rparr>"
             "getHandler sampleParse" knownOnly] 1 2
  show ?thesis by simp
qed

text \<open>
  C8. \<open>DisallowUnknownFields\<close> sets the strictness flag and nothing else, and setting it
  again changes nothing. For a JSON response whose object has a member that is no field of
  the target, decoding after \<open>DisallowUnknownFields\<close> returns an error; decoding with the
  flag off returns no error and a target in which every field has the value of the last
  member of its name, or its old value, and in which the unknown member is not found.
\<close>

theorem strict_mode_rejects_unknown_fields:
  assumes "Header_Get (rec_HeaderMap (Recorder c)) ''Content-Type'' = ctype"
    and "TrimSpace (takeWhile (\<lambda>b. b \<noteq> CHR '';'') ctype) = ''application/json''"
    and "parse (rec_Body (Recorder c)) = Some members"
    and "(k, v) \<in> set members"
    and "target k = None"
    and "\<not> Strict c"
  shows "Strict (DisallowUnknownFields c) \<and>
         DisallowUnknownFields (DisallowUnknownFields c) = DisallowUnknownFields c \<and>
         (\<exists>e target' c'.
            UnmarshalBodyToObject (getHandler parse) (DisallowUnknownFields c) target =
              Inr (Some e, target', c')) \<and>
         UnmarshalBodyToObject (getHandler parse) c target =
           Inr (None,
                (\<lambda>f. case target f of
                        None \<Rightarrow> None
                      | Some old \<Rightarrow>
                          (case map_of (rev members) f of Some x \<Rightarrow> Some x | None \<Rightarrow> Some old)),
                c\<lparr>Recorder := (Recorder c)\<lparr>rec_Body := []\<rparr>\<rparr>)"
proof -
  have reg: "getHandler parse ''application/json'' = Some (jsonHandler parse)"
    by (simp add: getHandler_def knownHandlers_def)
  obtain k' where strict: "decodeMembers True members target = Inl k'"
    using decodeMembers_strict [of k v members target] assms(4,5) by blast
  have pre: "Header_Get (rec_HeaderMap (Recorder (DisallowUnknownFields c))) ''Content-Type'' = ctype"
    using assms(1) by (simp add: DisallowUnknownFields_def)
  have "UnmarshalBodyToObject (getHandler parse) (DisallowUnknownFields c) target =
          Inr (Some (ErrorString (''json: unknown field '' @ k')), target,
               (DisallowUnknownFields c)
                 \<lparr>Recorder := (Recorder (DisallowUnknownFields c))\<lparr>rec_Body := []\<rparr>\<rparr>)"
    unfolding UnmarshalBodyToObject_content Let_def pre assms(2) reg
    using assms(3) strict
    by (simp add: jsonHandler_def DisallowUnknownFields_def Errorf_s_def)
  moreover have "UnmarshalBodyToObject (getHandler parse) c target =
          Inr (None,
               (\<lambda>f. case target f of
                       None \<Rightarrow> None
                     | Some old \<Rightarrow>
                         (case map_of (rev members) f of Some x \<Rightarrow> Some x | None \<Rightarrow> Some old)),
               c\<lparr>Recorder := (Recorder c)\<lparr>rec_Body := []\<rparr>\<rparr>)"
    unfolding UnmarshalBodyToObject_content Let_def assms(1,2) reg
    using assms(3,6)
    by (simp add: jsonHandler_def decodeMembers_lenient)
  ultimately show ?thesis
    by (auto simp: DisallowUnknownFields_def)
qed

theorem strict_mode_rejects_unknown_fields_witness:
  "UnmarshalBodyToObject (getHandler sampleParse) (DisallowUnknownFields knownAndUnknown) knownOnly =
     Inr (Some (ErrorString ''json: unknown field unknown''), knownOnly,
          (DisallowUnknownFields knownAndUnknown)
            \<lparr>Recorder := (Recorder knownAndUnknown)\<lparr>rec_Body := []\<rparr>\<rparr>) \<and>
   UnmarshalBodyToObject (getHandler sampleParse) knownAndUnknown knownOnly =
     Inr (None, [''known'' \<mapsto> 1],
          knownAndUnknown\<lparr>Recorder := (Recorder knownAndUnknown)\<lparr>rec_Body := []\<rparr>\<rparr>)"
proof -
  have 1: "Header_Get (rec_HeaderMap (Recorder knownAndUnknown)) ''Content-Type'' =
             ''application/json; charset=utf-8''"
    unfolding knownAndUnknown_def by (rule recorded_Content_Type)
  have 3: "sampleParse (rec_Body (Recorder knownAndUnknown)) =
             Some [(''known'', 1), (''unknown'', 2)]"
    by (simp add: knownAndUnknown_def recorded_def sampleParse_def)
  have 4: "(''unknown'', 2) \<in> set [(''known'', 1 :: int), (''unknown'', 2)]" by simp
  have 5: "knownOnly ''unknown'' = None" by (simp add: knownOnly_def)
  have 6: "\<not> Strict knownAndUnknown" by (simp add: knownAndUnknown_def recorded_def)
  have t: "(\<lambda>f. case knownOnly f of
                  None \<Rightarrow> None
                | Some old \<Rightarrow>
                    (case map_of (rev [(''known'', 1 :: int), (''unknown'', 2)]) f of
                       Some x \<Rightarrow> Some x | None \<Rightarrow> Some old)) = [''known'' \<mapsto> 1]"
    by (auto simp: knownOnly_def)
  have reg: "getHandler sampleParse ''application/json'' = Some (jsonHandler sampleParse)"
    by (simp add: getHandler_def knownHandlers_def)
  have strict: "UnmarshalBodyToObject (getHandler sampleParse) (DisallowUnknownFields knownAndUnknown) knownOnly =
     Inr (Some (ErrorString ''json: unknown field unknown''), knownOnly,
          (DisallowUnknownFields knownAndUnknown)
            \<lparr>Recorder := (Recorder knownAndUnknown)\<lparr>rec_Body := []\<rparr>\<rparr>)"
    unfolding UnmarshalBodyToObject_content Let_def
    using 1 3 bare_json reg
    by (simp add: DisallowUnknownFields_def jsonHandler_def knownOnly_def Errorf_s_def)
  from strict_mode_rejects_unknown_fields
         [where c = knownAndUnknown and ctype = "''application/json; charset=utf-8''"
            and parse = sampleParse and members = "[(''known'', 1), (''unknown'', 2)]"
            and k = "''unknown''" and v = 2 and target = knownOnly]
       1 bare_json 3 4 5 6 strict
  show ?thesis
    unfolding t by simp
qed

end
